theory Spec2Isabelle
  imports Complex_Main
begin

section \<open>The notebook helper \<open>colorize\<close>\<close>

text \<open>
  The repository consists of two tutorial notebooks. Segmentation, mask matching and
  extraction are calls into the external \<open>scportrait\<close> package
  (\<open>project.segment()\<close>, \<open>project.extract()\<close>); the only functions defined in the
  notebooks themselves are the display helpers \<open>colorize\<close> and
  \<open>generate_composite\<close>. This theory embeds \<open>colorize\<close>:
  \<^verbatim>\<open>
  def colorize(im, color, clip_percentile=0.0):
      # Check that we do just have a 2D image
      if im.ndim > 2 and im.shape[2] != 1:
          raise ValueError("This function expects a single-channel image!")

      # Rescale the image according to how we want to display it
      im_scaled = im.astype(np.float32) - np.percentile(im, clip_percentile)
      im_scaled = im_scaled / np.percentile(im_scaled, 100 - clip_percentile)
      im_scaled = np.clip(im_scaled, 0, 1)

      # Need to make sure we have a channels dimension for the multiplication to work
      im_scaled = np.atleast_3d(im_scaled)

      # Reshape the color (here, we assume channels last)
      color = np.asarray(color).reshape((1, 1, -1))
      return im_scaled * color
  \<close>
\<close>

subsection \<open>Arrays and errors\<close>

text \<open>
  A NumPy array is its shape together with its elements in row-major (C) order.
  A well-formed array holds as many elements as its shape says.
\<close>

record 'a ndarray =
  shape :: "nat list"
  data :: "'a list"

definition ndim :: "'a ndarray \<Rightarrow> nat" where
  "ndim a = length (shape a)"

definition wf_array :: "'a ndarray \<Rightarrow> bool" where
  "wf_array a = (length (data a) = prod_list (shape a))"

text \<open>
  \<open>ValueError\<close> carries the message of the exception; \<open>IndexError\<close> is what
  \<open>np.percentile\<close> raises on an array with no element (its message is not modelled).
\<close>

datatype error = ValueError string | IndexError

subsection \<open>NumPy's arithmetic as a parameter\<close>

text \<open>
  What \<open>colorize\<close> computes on the pixel values depends on the dtype of the image and on
  floating-point rounding, neither of which the notebook fixes:
  \<^item> \<open>np.percentile(im, q)\<close> sorts and interpolates in the image's own dtype, so on a
    signed-integer image the difference of the two neighbouring order statistics can wrap
    around;
  \<^item> \<open>im.astype(np.float32)\<close> rounds, and can map distinct pixels to the same number;
  \<^item> the subtraction, the second percentile, the division and the final product round
    again, in a precision that depends on the dtypes involved and on the NumPy release.

  The model therefore takes these element-wise operations as a parameter, the
  \<^emph>\<open>kernel\<close>, and fixes only what the source and NumPy fix for every dtype: the order of
  the calls, the error paths, the shapes, and which elements each result is computed
  from. A kernel stands for NumPy on images of one integer or real floating-point dtype
  (on such images the operations below return a value for every argument; a zero divisor
  gives NaN or an infinity and a warning, not an exception).

  \<open>'p\<close> is the type of the pixels, \<open>'f\<close> the type of the floating-point numbers before
  clipping (with their signed zeros), \<open>'c\<close> the type of the colour components, which
  are integers or real floating-point numbers. The quotient and the product are given
  by their values: a finite number, an infinity, or NaN.
\<close>

datatype fval = Fin real | PosInf | NegInf | NaN

record ('p, 'f, 'c) kernel =
  percentile_image :: "'p list \<Rightarrow> real \<Rightarrow> 'f"
  astype_float32 :: "'p \<Rightarrow> 'f"
  subtract_scalar :: "'f \<Rightarrow> 'f \<Rightarrow> 'f"
  percentile_scaled :: "'f list \<Rightarrow> real \<Rightarrow> 'f"
  divide_scalar :: "'f \<Rightarrow> 'f \<Rightarrow> fval"
  times_color :: "fval \<Rightarrow> 'c \<Rightarrow> fval"

text \<open>
  \<open>np.clip(x, lo, hi)\<close> is \<open>minimum(maximum(x, lo), hi)\<close>. Both operations are exact in
  every floating-point format and propagate NaN, so the value of the result is fixed by
  the value of \<open>x\<close>.
\<close>

fun clip :: "real \<Rightarrow> real \<Rightarrow> fval \<Rightarrow> fval" where
  "clip lo hi (Fin x) = Fin (min (max x lo) hi)"
| "clip lo hi PosInf = Fin hi"
| "clip lo hi NegInf = Fin (min lo hi)"
| "clip lo hi NaN = NaN"

subsection \<open>\<open>np.percentile\<close>\<close>

text \<open>
  \<open>np.percentile(a, q)\<close> with the default arguments flattens \<open>a\<close>, rejects a \<open>q\<close>
  outside \<open>[0, 100]\<close> before it looks at the data, raises IndexError when \<open>a\<close> has no
  element, and otherwise returns the value \<open>interpolate a q\<close> that the kernel computes.
  (NumPy tests the rounded quotient \<open>q / 100\<close> against \<open>[0, 1]\<close>. For every \<open>q\<close> in
  \<open>[0, 100]\<close> that is the test below; the few negative numbers so small that the quotient
  underflows to zero are accepted by NumPy and rejected here. No result below is about
  them.)
\<close>

definition np_percentile :: "('a list \<Rightarrow> real \<Rightarrow> 'f) \<Rightarrow> 'a list \<Rightarrow> real \<Rightarrow> error + 'f" where
  "np_percentile interpolate a q =
     (if \<not> (0 \<le> q \<and> q \<le> 100) then
        Inl (ValueError ''Percentiles must be in the range [0, 100]'')
      else if a = [] then Inl IndexError
      else Inr (interpolate a q))"

subsection \<open>Reshaping and broadcasting\<close>

text \<open>
  \<open>np.atleast_3d\<close>: a scalar becomes \<open>(1, 1, 1)\<close>, a vector of length \<open>n\<close> becomes
  \<open>(1, n, 1)\<close>, an \<open>(m, n)\<close> matrix becomes \<open>(m, n, 1)\<close>, and an array of three or
  more dimensions is left alone. The elements keep their order.
\<close>

fun atleast_3d_shape :: "nat list \<Rightarrow> nat list" where
  "atleast_3d_shape [] = [1, 1, 1]"
| "atleast_3d_shape [n] = [1, n, 1]"
| "atleast_3d_shape [m, n] = [m, n, 1]"
| "atleast_3d_shape s = s"

definition atleast_3d :: "'a ndarray \<Rightarrow> 'a ndarray" where
  "atleast_3d a = a\<lparr>shape := atleast_3d_shape (shape a)\<rparr>"

text \<open>
  \<open>np.asarray(color).reshape((1, 1, -1))\<close>: the components of the colour, in order,
  along the last axis.
\<close>

definition reshape_color :: "'c list \<Rightarrow> 'c ndarray" where
  "reshape_color color = \<lparr>shape = [1, 1, length color], data = color\<rparr>"

text \<open>
  Broadcasting aligns the two shapes at their last axis, fills the shorter one with
  ones on the left, and accepts an axis when the two sizes agree or one of them is 1.
  (NumPy appends the two shapes to the message of the exception.)
\<close>

definition pad_shape :: "nat \<Rightarrow> nat list \<Rightarrow> nat list" where
  "pad_shape n s = replicate (n - length s) 1 @ s"

definition broadcast_shapes :: "nat list \<Rightarrow> nat list \<Rightarrow> error + nat list" where
  "broadcast_shapes s t =
     (let n = max (length s) (length t);
          s' = pad_shape n s;
          t' = pad_shape n t
      in if list_all2 (\<lambda>a b. a = b \<or> a = 1 \<or> b = 1) s' t'
         then Inr (map2 (\<lambda>a b. if a = 1 then b else a) s' t')
         else Inl (ValueError ''operands could not be broadcast together''))"

text \<open>All index tuples of a shape, in row-major order.\<close>

fun indices :: "nat list \<Rightarrow> nat list list" where
  "indices [] = [[]]"
| "indices (n # ns) = concat (map (\<lambda>i. map ((#) i) (indices ns)) [0..<n])"

text \<open>The position of an index tuple in the row-major element list.\<close>

definition ravel :: "nat list \<Rightarrow> nat list \<Rightarrow> nat" where
  "ravel s idx = foldl (\<lambda>acc (d, x). acc * d + x) 0 (zip s idx)"

text \<open>
  The element of an operand (of padded shape \<open>s\<close>) that an index of the broadcast
  result reads: along an axis of size 1 the operand is repeated.
\<close>

definition broadcast_item :: "nat list \<Rightarrow> 'a list \<Rightarrow> nat list \<Rightarrow> 'a" where
  "broadcast_item s xs idx = xs ! ravel s (map2 (\<lambda>d x. if d = 1 then 0 else x) s idx)"

text \<open>\<open>a * b\<close> on arrays, with the product of two elements given by \<open>product\<close>.\<close>

definition multiply :: "('a \<Rightarrow> 'b \<Rightarrow> 'r) \<Rightarrow> 'a ndarray \<Rightarrow> 'b ndarray \<Rightarrow> error + 'r ndarray" where
  "multiply product a b =
     (case broadcast_shapes (shape a) (shape b) of
        Inl e \<Rightarrow> Inl e
      | Inr s \<Rightarrow>
          let sa = pad_shape (length s) (shape a);
              sb = pad_shape (length s) (shape b)
          in Inr \<lparr>shape = s,
                  data = map (\<lambda>idx. product (broadcast_item sa (data a) idx)
                                             (broadcast_item sb (data b) idx))
                             (indices s)\<rparr>)"

subsection \<open>\<open>colorize\<close>\<close>

definition colorize ::
  "('p, 'f, 'c) kernel \<Rightarrow> 'p ndarray \<Rightarrow> 'c list \<Rightarrow> real \<Rightarrow> error + fval ndarray" where
  "colorize K im color clip_percentile =
     (if ndim im > 2 \<and> shape im ! 2 \<noteq> 1 then
        Inl (ValueError ''This function expects a single-channel image!'')
      else
        case np_percentile (percentile_image K) (data im) clip_percentile of
          Inl e \<Rightarrow> Inl e
        | Inr p_low \<Rightarrow>
            let im_scaled = map (\<lambda>x. subtract_scalar K (astype_float32 K x) p_low) (data im) in
            (case np_percentile (percentile_scaled K) im_scaled (100 - clip_percentile) of
               Inl e \<Rightarrow> Inl e
             | Inr p_high \<Rightarrow>
                 let im_divided = map (\<lambda>x. divide_scalar K x p_high) im_scaled;
                     im_clipped = map (clip 0 1) im_divided;
                     im_3d = atleast_3d \<lparr>shape = shape im, data = im_clipped\<rparr>
                 in multiply (times_color K) im_3d (reshape_color color)))"

subsection \<open>The kernel of exact arithmetic\<close>

text \<open>
  For evaluating \<open>colorize\<close> at concrete images: the kernel that computes without
  rounding and without wrap-around. NumPy computes the same values on an image whenever
  every intermediate result is exactly representable and no difference of two pixels
  leaves the image's dtype; it does not in general. The percentile is NumPy's default
  method: linear interpolation between the two order statistics around the virtual
  index \<open>q / 100 * (n - 1)\<close>. The quotient and the product follow IEEE 754 where exact
  arithmetic has no answer.
\<close>

definition lerp :: "real \<Rightarrow> real \<Rightarrow> real \<Rightarrow> real" where
  "lerp a b t = a + (b - a) * t"

definition exact_percentile :: "real list \<Rightarrow> real \<Rightarrow> real" where
  "exact_percentile a q =
     (let arr = sort a;
          n = length arr;
          virtual_index = q / 100 * real (n - 1);
          previous_index = nat \<lfloor>virtual_index\<rfloor>;
          next_index = min (previous_index + 1) (n - 1);
          gamma = virtual_index - real previous_index
      in lerp (arr ! previous_index) (arr ! next_index) gamma)"

definition true_divide :: "real \<Rightarrow> real \<Rightarrow> fval" where
  "true_divide x y =
     (if y \<noteq> 0 then Fin (x / y)
      else if x = 0 then NaN
      else if 0 < x then PosInf
      else NegInf)"

fun fmul :: "fval \<Rightarrow> real \<Rightarrow> fval" where
  "fmul (Fin x) c = Fin (x * c)"
| "fmul PosInf c = (if c = 0 then NaN else if 0 < c then PosInf else NegInf)"
| "fmul NegInf c = (if c = 0 then NaN else if 0 < c then NegInf else PosInf)"
| "fmul NaN c = NaN"

definition exact_kernel :: "(real, real, real) kernel" where
  "exact_kernel =
     \<lparr>percentile_image = exact_percentile,
      astype_float32 = (\<lambda>x. x),
      subtract_scalar = (\<lambda>x p. x - p),
      percentile_scaled = exact_percentile,
      divide_scalar = true_divide,
      times_color = fmul\<rparr>"

section \<open>Properties\<close>

subsection \<open>Percentiles\<close>

text \<open>
  A percentile in \<open>[0, 100]\<close> of an array with at least one element is the value the
  kernel computes; the only errors are the two of the definition.
\<close>

lemma np_percentile_in_range:
  "a \<noteq> [] \<Longrightarrow> 0 \<le> q \<Longrightarrow> q \<le> 100 \<Longrightarrow> np_percentile f a q = Inr (f a q)"
  by (simp add: np_percentile_def)

lemma np_percentile_error:
  "np_percentile f a q = Inl e \<Longrightarrow>
     e = ValueError ''Percentiles must be in the range [0, 100]'' \<or> e = IndexError"
  by (simp add: np_percentile_def split: if_splits)

subsection \<open>Row-major indexing and broadcasting\<close>

text \<open>
  The index tuples of a shape are enumerated in row-major order, so the tuple
  \<open>[i, j, k]\<close> of the shape \<open>[h, w, c]\<close> stands at position \<open>(i * w + j) * c + k\<close>.
\<close>

lemma length_concat_upt:
  "(\<And>i. i < n \<Longrightarrow> length (f i) = m) \<Longrightarrow> length (concat (map f [0..<n])) = n * m"
  by (induction n) simp_all

lemma nth_concat_upt:
  "(\<And>i. i < n \<Longrightarrow> length (f i) = m) \<Longrightarrow> i < n \<Longrightarrow> r < m \<Longrightarrow>
     concat (map f [0..<n]) ! (i * m + r) = f i ! r"
proof (induction n)
  case 0
  then show ?case by simp
next
  case (Suc n)
  have len: "length (concat (map f [0..<n])) = n * m"
    using Suc.prems(1) by (simp add: length_concat_upt)
  show ?case
  proof (cases "i < n")
    case True
    then have "Suc i * m \<le> n * m"
      by (intro mult_le_mono1) simp
    moreover have "i * m + r < Suc i * m"
      using Suc.prems(3) by simp
    ultimately have "i * m + r < n * m"
      by (rule less_le_trans [rotated])
    then show ?thesis
      using Suc True by (simp add: nth_append len)
  next
    case False
    then have "i = n" using Suc.prems(2) by simp
    then show ?thesis by (simp add: nth_append len)
  qed
qed

lemma length_indices: "length (indices s) = prod_list s"
  by (induction s) (simp_all add: length_concat_upt)

lemma indices_nth_Cons:
  "i < n \<Longrightarrow> r < prod_list ns \<Longrightarrow>
     indices (n # ns) ! (i * prod_list ns + r) = i # indices ns ! r"
  using nth_concat_upt [of n "\<lambda>i. map ((#) i) (indices ns)" "prod_list ns" i r]
  by (simp add: length_indices)

lemma row_major_bound: "j < w \<Longrightarrow> k < c \<Longrightarrow> j * c + k < w * (c::nat)"
proof -
  assume "j < w" "k < c"
  then have "Suc j * c \<le> w * c"
    by (intro mult_le_mono1) simp
  moreover have "j * c + k < Suc j * c"
    using \<open>k < c\<close> by simp
  ultimately show ?thesis
    by (rule less_le_trans [rotated])
qed

lemma indices_hwc:
  assumes "i < h" "j < w" "k < c"
  shows "indices [h, w, c] ! ((i * w + j) * c + k) = [i, j, k]"
proof -
  have k: "indices [c] ! k = [k]"
    using indices_nth_Cons [of k c 0 "[]"] assms(3) by (simp del: indices.simps(2))
  have jk: "indices [w, c] ! (j * c + k) = [j, k]"
    using indices_nth_Cons [of j w k "[c]"] assms(2,3) k by (simp del: indices.simps)
  have bound: "j * c + k < prod_list [w, c]"
    using row_major_bound [OF assms(2,3)] by simp
  have eq: "(i * w + j) * c + k = i * prod_list [w, c] + (j * c + k)"
    by (simp add: algebra_simps)
  have "indices [h, w, c] ! ((i * w + j) * c + k) =
        indices [h, w, c] ! (i * prod_list [w, c] + (j * c + k))"
    by (simp only: eq)
  also have "\<dots> = i # indices [w, c] ! (j * c + k)"
    using assms(1) bound by (rule indices_nth_Cons)
  also have "\<dots> = [i, j, k]"
    by (simp only: jk)
  finally show ?thesis .
qed

lemma broadcast_hw1_11c:
  "broadcast_shapes [h, w, 1] [1, 1, c] = Inr [h, w, c]"
  by (simp add: broadcast_shapes_def pad_shape_def)

lemma item_image:
  "i < h \<Longrightarrow> j < w \<Longrightarrow> broadcast_item [h, w, 1] xs [i, j, k] = xs ! (i * w + j)"
  by (auto simp: broadcast_item_def ravel_def)

lemma item_color:
  "k < c \<Longrightarrow> broadcast_item [1, 1, c] xs [i, j, k] = xs ! k"
  by (auto simp: broadcast_item_def ravel_def)

lemma multiply_hw1_11c:
  "multiply f \<lparr>shape = [h, w, 1], data = xs\<rparr> \<lparr>shape = [1, 1, c], data = ys\<rparr> =
     Inr \<lparr>shape = [h, w, c],
          data = map (\<lambda>idx. f (broadcast_item [h, w, 1] xs idx) (broadcast_item [1, 1, c] ys idx))
                     (indices [h, w, c])\<rparr>"
  by (simp add: multiply_def broadcast_hw1_11c pad_shape_def del: One_nat_def)

lemma multiply_hw1_11c_nth:
  assumes "i < h" "j < w" "k < c"
  shows "map (\<lambda>idx. f (broadcast_item [h, w, 1] xs idx) (broadcast_item [1, 1, c] ys idx))
             (indices [h, w, c]) ! ((i * w + j) * c + k) = f (xs ! (i * w + j)) (ys ! k)"
proof -
  have "(i * w + j) * c + k < h * w * c"
    using row_major_bound [OF row_major_bound [OF assms(1,2)] assms(3)] by simp
  then have "(i * w + j) * c + k < length (indices [h, w, c])"
    by (simp add: length_indices mult.assoc del: indices.simps)
  then show ?thesis
    using assms by (simp add: indices_hwc item_image item_color del: indices.simps One_nat_def)
qed

lemma multiply_error:
  "multiply f a b = Inl e \<Longrightarrow> e = ValueError ''operands could not be broadcast together''"
  by (simp add: multiply_def broadcast_shapes_def Let_def split: sum.splits if_splits)

subsection \<open>Clipping\<close>

text \<open>Whatever the quotient is, its clipped value is NaN or lies in \<open>[0, 1]\<close>.\<close>

lemma clip_unit_range:
  "clip 0 1 x = NaN \<or> (\<exists>c. clip 0 1 x = Fin c \<and> 0 \<le> c \<and> c \<le> 1)"
  by (cases x) auto

subsection \<open>Which errors \<open>colorize\<close> can raise\<close>

lemma colorize_unguarded:
  "\<not> (2 < ndim im \<and> shape im ! 2 \<noteq> 1) \<Longrightarrow>
     colorize K im color q =
       (case np_percentile (percentile_image K) (data im) q of
          Inl e \<Rightarrow> Inl e
        | Inr p_low \<Rightarrow>
            (case np_percentile (percentile_scaled K)
                    (map (\<lambda>x. subtract_scalar K (astype_float32 K x) p_low) (data im))
                    (100 - q) of
               Inl e \<Rightarrow> Inl e
             | Inr p_high \<Rightarrow>
                 multiply (times_color K)
                   (atleast_3d \<lparr>shape = shape im,
                      data = map (clip 0 1)
                               (map (\<lambda>x. divide_scalar K x p_high)
                                    (map (\<lambda>x. subtract_scalar K (astype_float32 K x) p_low)
                                         (data im)))\<rparr>)
                   (reshape_color color)))"
  by (simp only: colorize_def Let_def if_not_P if_False)

lemma single_channel_message:
  "colorize K im color q = Inl (ValueError ''This function expects a single-channel image!'')
     \<longleftrightarrow> 2 < ndim im \<and> shape im ! 2 \<noteq> 1"
proof
  assume "2 < ndim im \<and> shape im ! 2 \<noteq> 1"
  then show "colorize K im color q =
      Inl (ValueError ''This function expects a single-channel image!'')"
    by (simp add: colorize_def)
next
  let ?msg = "ValueError ''This function expects a single-channel image!''"
  assume raised: "colorize K im color q = Inl ?msg"
  show "2 < ndim im \<and> shape im ! 2 \<noteq> 1"
  proof (rule ccontr)
    assume guard: "\<not> (2 < ndim im \<and> shape im ! 2 \<noteq> 1)"
    show False
    proof (cases "np_percentile (percentile_image K) (data im) q")
      case (Inl e)
      then have "colorize K im color q = Inl e"
        by (simp add: colorize_unguarded [OF guard])
      then have "e = ?msg"
        using raised by simp
      then show False
        using np_percentile_error [OF Inl] by simp
    next
      case lo: (Inr p_low)
      let ?scaled = "map (\<lambda>x. subtract_scalar K (astype_float32 K x) p_low) (data im)"
      show False
      proof (cases "np_percentile (percentile_scaled K) ?scaled (100 - q)")
        case (Inl e)
        then have "colorize K im color q = Inl e"
          using lo by (simp add: colorize_unguarded [OF guard])
        then have "e = ?msg"
          using raised by simp
        then show False
          using np_percentile_error [OF Inl] by simp
      next
        case hi: (Inr p_high)
        let ?im_3d = "atleast_3d \<lparr>shape = shape im,
            data = map (clip 0 1) (map (\<lambda>x. divide_scalar K x p_high) ?scaled)\<rparr>"
        have "colorize K im color q = multiply (times_color K) ?im_3d (reshape_color color)"
          using lo hi by (simp add: colorize_unguarded [OF guard])
        then have "multiply (times_color K) ?im_3d (reshape_color color) = Inl ?msg"
          using raised by simp
        then show False
          using multiply_error by fastforce
      qed
    qed
  qed
qed

subsection \<open>The contract of \<open>colorize\<close>\<close>

text \<open>
  C10, as amended. \<open>colorize\<close> raises
  \<open>ValueError("This function expects a single-channel image!")\<close> exactly when the
  input array has more than two dimensions and its third dimension has a size other
  than 1. For every well-formed input of shape \<open>(h, w)\<close> or \<open>(h, w, 1)\<close> with at least
  one pixel and every clip percentile in \<open>[0, 100]\<close>, whatever the dtype and the rounding
  are (for every kernel), it returns normally: both percentiles \<open>p_low\<close> (of the image,
  at the clip percentile) and \<open>p_high\<close> (of the shifted image, at 100 minus the clip
  percentile) are computed, the result is a well-formed array of shape
  \<open>(h, w, len(color))\<close>, and its entry \<open>[i, j, k]\<close> is the product of \<open>color[k]\<close> and
  the factor \<open>c = clip((float32(im[i, j]) - p_low) / p_high, 0, 1)\<close>, which is NaN or a
  number in \<open>[0, 1]\<close>.
\<close>

theorem colorize_single_channel_contract:
  "(colorize K im color q = Inl (ValueError ''This function expects a single-channel image!'')
      \<longleftrightarrow> 2 < ndim im \<and> shape im ! 2 \<noteq> 1) \<and>
   ((shape im = [h, w] \<or> shape im = [h, w, 1]) \<and> wf_array im \<and> data im \<noteq> [] \<and>
    0 \<le> q \<and> q \<le> 100 \<longrightarrow>
      (\<exists>p_low p_high out.
         np_percentile (percentile_image K) (data im) q = Inr p_low \<and>
         np_percentile (percentile_scaled K)
           (map (\<lambda>x. subtract_scalar K (astype_float32 K x) p_low) (data im)) (100 - q) =
           Inr p_high \<and>
         colorize K im color q = Inr out \<and>
         shape out = [h, w, length color] \<and>
         wf_array out \<and>
         (\<forall>i<h. \<forall>j<w. \<forall>k<length color.
            \<exists>c. c = clip 0 1 (divide_scalar K
                        (subtract_scalar K (astype_float32 K (data im ! (i * w + j))) p_low)
                        p_high) \<and>
                (c = NaN \<or> (\<exists>r. c = Fin r \<and> 0 \<le> r \<and> r \<le> 1)) \<and>
                data out ! ((i * w + j) * length color + k) = times_color K c (color ! k))))"
proof (intro conjI impI)
  show "colorize K im color q = Inl (ValueError ''This function expects a single-channel image!'')
      \<longleftrightarrow> 2 < ndim im \<and> shape im ! 2 \<noteq> 1"
    by (rule single_channel_message)
next
  assume a: "(shape im = [h, w] \<or> shape im = [h, w, 1]) \<and> wf_array im \<and> data im \<noteq> [] \<and>
    0 \<le> q \<and> q \<le> 100"
  then have ne: "data im \<noteq> []" and q: "0 \<le> q" "q \<le> 100"
    by simp_all
  have size: "length (data im) = h * w"
    using a by (auto simp: wf_array_def)
  define p_low where "p_low = percentile_image K (data im) q"
  let ?scaled = "map (\<lambda>x. subtract_scalar K (astype_float32 K x) p_low) (data im)"
  define p_high where "p_high = percentile_scaled K ?scaled (100 - q)"
  have lo: "np_percentile (percentile_image K) (data im) q = Inr p_low"
    using ne q by (simp add: np_percentile_in_range p_low_def)
  have hi: "np_percentile (percentile_scaled K) ?scaled (100 - q) = Inr p_high"
    using ne q by (simp add: np_percentile_in_range p_high_def)
  let ?clipped = "map (clip 0 1) (map (\<lambda>x. divide_scalar K x p_high) ?scaled)"
  let ?out = "\<lparr>shape = [h, w, length color],
      data = map (\<lambda>idx. times_color K (broadcast_item [h, w, 1] ?clipped idx)
                                       (broadcast_item [1, 1, length color] color idx))
                 (indices [h, w, length color])\<rparr>"
  have guard: "\<not> (2 < ndim im \<and> shape im ! 2 \<noteq> 1)"
    using a by (auto simp: ndim_def)
  have shape3: "atleast_3d_shape (shape im) = [h, w, 1]"
    using a by auto
  have run: "colorize K im color q = Inr ?out"
    using lo hi shape3
    by (simp add: colorize_unguarded [OF guard] atleast_3d_def reshape_color_def
        multiply_hw1_11c del: indices.simps One_nat_def)
  have wf: "wf_array ?out"
    by (simp add: wf_array_def length_indices del: indices.simps)
  have pix: "data ?out ! ((i * w + j) * length color + k) =
      times_color K
        (clip 0 1 (divide_scalar K
           (subtract_scalar K (astype_float32 K (data im ! (i * w + j))) p_low) p_high))
        (color ! k)"
    if "i < h" "j < w" "k < length color" for i j k
  proof -
    have "i * w + j < length (data im)"
      using size row_major_bound [OF that(1,2)] by simp
    then show ?thesis
      using that by (simp add: multiply_hw1_11c_nth del: indices.simps One_nat_def)
  qed
  have entry: "\<exists>c. c = clip 0 1 (divide_scalar K
                        (subtract_scalar K (astype_float32 K (data im ! (i * w + j))) p_low)
                        p_high) \<and>
                (c = NaN \<or> (\<exists>r. c = Fin r \<and> 0 \<le> r \<and> r \<le> 1)) \<and>
                data ?out ! ((i * w + j) * length color + k) = times_color K c (color ! k)"
    if "i < h" "j < w" "k < length color" for i j k
    using pix [OF that] clip_unit_range by blast
  have "np_percentile (percentile_image K) (data im) q = Inr p_low \<and>
        np_percentile (percentile_scaled K) ?scaled (100 - q) = Inr p_high \<and>
        colorize K im color q = Inr ?out \<and>
        shape ?out = [h, w, length color] \<and>
        wf_array ?out \<and>
        (\<forall>i<h. \<forall>j<w. \<forall>k<length color.
            \<exists>c. c = clip 0 1 (divide_scalar K
                        (subtract_scalar K (astype_float32 K (data im ! (i * w + j))) p_low)
                        p_high) \<and>
                (c = NaN \<or> (\<exists>r. c = Fin r \<and> 0 \<le> r \<and> r \<le> 1)) \<and>
                data ?out ! ((i * w + j) * length color + k) = times_color K c (color ! k))"
    using lo hi run wf entry by (intro conjI allI impI) simp_all
  then show "\<exists>p_low p_high out.
         np_percentile (percentile_image K) (data im) q = Inr p_low \<and>
         np_percentile (percentile_scaled K)
           (map (\<lambda>x. subtract_scalar K (astype_float32 K x) p_low) (data im)) (100 - q) =
           Inr p_high \<and>
         colorize K im color q = Inr out \<and>
         shape out = [h, w, length color] \<and>
         wf_array out \<and>
         (\<forall>i<h. \<forall>j<w. \<forall>k<length color.
            \<exists>c. c = clip 0 1 (divide_scalar K
                        (subtract_scalar K (astype_float32 K (data im ! (i * w + j))) p_low)
                        p_high) \<and>
                (c = NaN \<or> (\<exists>r. c = Fin r \<and> 0 \<le> r \<and> r \<le> 1)) \<and>
                data out ! ((i * w + j) * length color + k) = times_color K c (color ! k))"
    by (intro exI [of _ p_low] exI [of _ p_high] exI [of _ ?out])
qed

text \<open>
  The contract at concrete inputs, with the kernel of exact arithmetic (NumPy computes
  the same on these small integers in every integer and floating-point dtype that holds
  them). A \<open>(1, 1, 3)\<close> array is rejected with the single-channel message. The
  \<open>(1, 2)\<close> image \<open>[[1, 3]]\<close>, coloured blue with the default clip percentile,
  satisfies every hypothesis of the second part; the contract then gives \<open>p_low = 1\<close>,
  \<open>p_high = 2\<close> and the blue components 0 and 1 of the two pixels.
\<close>

theorem colorize_single_channel_contract_witness:
  "2 < ndim \<lparr>shape = [1, 1, 3], data = [1, 2, 3 :: real]\<rparr> \<and>
   colorize exact_kernel \<lparr>shape = [1, 1, 3], data = [1, 2, 3]\<rparr> [0, 0, 1] 0 =
     Inl (ValueError ''This function expects a single-channel image!'') \<and>
   wf_array \<lparr>shape = [1, 2], data = [1, 3 :: real]\<rparr> \<and>
   (\<exists>out. colorize exact_kernel \<lparr>shape = [1, 2], data = [1, 3]\<rparr> [0, 0, 1] 0 = Inr out \<and>
      shape out = [1, 2, 3] \<and> data out ! 2 = Fin 0 \<and> data out ! 5 = Fin 1)"
proof -
  let ?rgb = "\<lparr>shape = [1, 1, 3], data = [1, 2, 3 :: real]\<rparr>"
  let ?im = "\<lparr>shape = [1, 2], data = [1, 3 :: real]\<rparr>"
  let ?blue = "[0, 0, 1 :: real]"
  let ?K = "exact_kernel"
  note at_rgb = colorize_single_channel_contract
    [where K = ?K and im = ?rgb and color = ?blue and q = 0 and h = 0 and w = 0]
  note at_im = colorize_single_channel_contract
    [where K = ?K and im = ?im and color = ?blue and q = 0 and h = 1 and w = 2]
  have multi: "2 < ndim ?rgb \<and> shape ?rgb ! 2 \<noteq> 1"
    by (simp add: ndim_def)
  have raises: "colorize ?K ?rgb ?blue 0 =
      Inl (ValueError ''This function expects a single-channel image!'')"
    using conjunct1 [OF at_rgb] multi by (rule iffD2)
  have wf: "wf_array ?im"
    by (simp add: wf_array_def)
  then have pre: "(shape ?im = [1, 2] \<or> shape ?im = [1, 2, 1]) \<and> wf_array ?im \<and>
      data ?im \<noteq> [] \<and> (0::real) \<le> 0 \<and> (0::real) \<le> 100"
    by simp
  from mp [OF conjunct2 [OF at_im] pre] obtain p_low p_high out where
    lo: "np_percentile (percentile_image ?K) (data ?im) 0 = Inr p_low" and
    hi: "np_percentile (percentile_scaled ?K)
           (map (\<lambda>x. subtract_scalar ?K (astype_float32 ?K x) p_low) (data ?im)) (100 - 0) =
           Inr p_high" and
    run: "colorize ?K ?im ?blue 0 = Inr out" and
    sh: "shape out = [1, 2, length ?blue]" and
    pix: "\<forall>i<1. \<forall>j<2. \<forall>k<length ?blue.
            \<exists>c. c = clip 0 1 (divide_scalar ?K
                        (subtract_scalar ?K (astype_float32 ?K (data ?im ! (i * 2 + j))) p_low)
                        p_high) \<and>
                (c = NaN \<or> (\<exists>r. c = Fin r \<and> 0 \<le> r \<and> r \<le> 1)) \<and>
                data out ! ((i * 2 + j) * length ?blue + k) = times_color ?K c (?blue ! k)"
    by (elim exE conjE)
  have p_low: "p_low = 1"
    using lo by (simp add: np_percentile_def exact_kernel_def exact_percentile_def lerp_def)
  have p_high: "p_high = 2"
    using hi
    by (simp add: p_low np_percentile_def exact_kernel_def exact_percentile_def lerp_def)
  have at_2: "data out ! 2 = Fin 0"
    using pix [rule_format, of 0 0 2]
    by (simp add: p_low p_high exact_kernel_def true_divide_def eval_nat_numeral)
  have at_5: "data out ! 5 = Fin 1"
    using pix [rule_format, of 0 1 2]
    by (simp add: p_low p_high exact_kernel_def true_divide_def eval_nat_numeral)
  have "colorize ?K ?im ?blue 0 = Inr out \<and>
      shape out = [1, 2, 3] \<and> data out ! 2 = Fin 0 \<and> data out ! 5 = Fin 1"
    using run sh at_2 at_5 by simp
  then have "\<exists>out. colorize ?K ?im ?blue 0 = Inr out \<and>
      shape out = [1, 2, 3] \<and> data out ! 2 = Fin 0 \<and> data out ! 5 = Fin 1"
    by (rule exI)
  with multi raises wf show ?thesis
    by (intro conjI) (rule conjunct1, assumption+)
qed

text \<open>
  C10 as first stated says that every two-dimensional input returns normally, with the
  rescaled image clipped to \<open>[0, 1]\<close>. Two inputs of the claim's own kind, both with
  the default clip percentile, show otherwise:
  \<^item> the well-formed \<open>(0, 2)\<close> image, which has no pixel, passes the shape check, and the
    first call of \<open>np.percentile\<close> raises IndexError, whatever the kernel;
  \<^item> on the constant \<open>(1, 2)\<close> image \<open>[[5, 5]]\<close> both percentiles are exact, \<open>p_high\<close> is
    0, every pixel becomes \<open>0 / 0\<close>, and the result is NaN throughout (NumPy warns and
    returns).

  A third input lies beside them, since it varies the clip percentile rather than the
  image: at 101 \<open>np.percentile\<close> raises a ValueError of its own on the \<open>(1, 2)\<close> image
  \<open>[[1, 3]]\<close>. It is why the amended claim names the clip percentiles it covers.
\<close>

theorem colorize_single_channel_counterexample:
  "ndim \<lparr>shape = [0, 2], data = [] :: real list\<rparr> = 2 \<and>
   wf_array \<lparr>shape = [0, 2], data = [] :: real list\<rparr> \<and>
   colorize exact_kernel \<lparr>shape = [0, 2], data = []\<rparr> [0, 0, 1] 0 = Inl IndexError \<and>
   wf_array \<lparr>shape = [1, 2], data = [5, 5 :: real]\<rparr> \<and>
   colorize exact_kernel \<lparr>shape = [1, 2], data = [5, 5]\<rparr> [0, 0, 1] 0 =
     Inr \<lparr>shape = [1, 2, 3], data = [NaN, NaN, NaN, NaN, NaN, NaN]\<rparr> \<and>
   colorize exact_kernel \<lparr>shape = [1, 2], data = [1, 3]\<rparr> [0, 0, 1] 101 =
     Inl (ValueError ''Percentiles must be in the range [0, 100]'')"
proof (intro conjI)
  show "ndim \<lparr>shape = [0, 2], data = [] :: real list\<rparr> = 2"
    by (simp add: ndim_def)
  show "wf_array \<lparr>shape = [0, 2], data = [] :: real list\<rparr>"
    by (simp add: wf_array_def)
  show "colorize exact_kernel \<lparr>shape = [0, 2], data = []\<rparr> [0, 0, 1] 0 = Inl IndexError"
    by (simp add: colorize_def ndim_def np_percentile_def)
  show "wf_array \<lparr>shape = [1, 2], data = [5, 5 :: real]\<rparr>"
    by (simp add: wf_array_def)
  show "colorize exact_kernel \<lparr>shape = [1, 2], data = [5, 5]\<rparr> [0, 0, 1] 0 =
     Inr \<lparr>shape = [1, 2, 3], data = [NaN, NaN, NaN, NaN, NaN, NaN]\<rparr>"
    by (simp add: colorize_def ndim_def np_percentile_def exact_kernel_def
        exact_percentile_def lerp_def true_divide_def atleast_3d_def reshape_color_def
        multiply_def broadcast_shapes_def pad_shape_def broadcast_item_def ravel_def Let_def
        eval_nat_numeral upt_rec)
  show "colorize exact_kernel \<lparr>shape = [1, 2], data = [1, 3]\<rparr> [0, 0, 1] 101 =
     Inl (ValueError ''Percentiles must be in the range [0, 100]'')"
    by (simp add: colorize_def ndim_def np_percentile_def)
qed

end
